theory Spec2Isabelle
  imports Main
begin

section \<open>Errors\<close>

text \<open>
  A Go \<^verbatim>\<open>error\<close> is either a leaf made by \<^verbatim>\<open>errors.New\<close> (identified here with its
  message) or the result of \<^verbatim>\<open>fmt.Errorf\<close> with one \<^verbatim>\<open>%w\<close> operand, which carries its
  formatted message and the operand it wraps. The Go value \<^verbatim>\<open>nil\<close> of type \<^verbatim>\<open>error\<close> is
  \<open>None\<close> of \<open>error option\<close>.
\<close>

datatype error = ErrorsNew string | Errorf string error

fun Error_text :: "error \<Rightarrow> string" where
  "Error_text (ErrorsNew m) = m"
| "Error_text (Errorf m e) = m"

fun Unwrap :: "error \<Rightarrow> error option" where
  "Unwrap (ErrorsNew m) = None"
| "Unwrap (Errorf m e) = Some e"

text \<open>\<^verbatim>\<open>errors.Is(err, target)\<close>: \<open>err\<close> or an error on its unwrap chain is the target.\<close>

fun errors_Is :: "error \<Rightarrow> error \<Rightarrow> bool" where
  "errors_Is (ErrorsNew m) t = (ErrorsNew m = t)"
| "errors_Is (Errorf m e) t = (Errorf m e = t \<or> errors_Is e t)"

definition errors_Is_opt :: "error option \<Rightarrow> error \<Rightarrow> bool" where
  "errors_Is_opt err t = (case err of None \<Rightarrow> False | Some e \<Rightarrow> errors_Is e t)"

text \<open>The sentinel errors the two files use (\<^verbatim>\<open>database/sql/driver\<close> and gorm's \<^verbatim>\<open>errors.go\<close>).\<close>

definition ErrBadConn :: error where
  "ErrBadConn = ErrorsNew ''driver: bad connection''"

definition ErrInvalidTransaction :: error where
  "ErrInvalidTransaction = ErrorsNew ''invalid transaction''"

definition ErrRegistered :: error where
  "ErrRegistered = ErrorsNew ''registered''"

text \<open>A run-time panic of the Go program (a method called through a nil value).\<close>

datatype panic = NilPointerDereference

section \<open>Connection pools (\<^verbatim>\<open>prepare_stmt.go\<close>)\<close>

text \<open>
  The values an interface variable of type \<^verbatim>\<open>ConnPool\<close> holds in these files: the nil
  interface, a \<^verbatim>\<open>*sql.DB\<close>, a \<^verbatim>\<open>*sql.Tx\<close> (\<open>SqlTx None\<close> is the typed nil pointer, the
  value \<^verbatim>\<open>reflect.ValueOf(tx.Tx).IsNil()\<close> detects), a \<^verbatim>\<open>*PreparedStmtDB\<close> and a
  \<^verbatim>\<open>*PreparedStmtTX\<close>. Pointers into the program's memory are addresses (\<open>nat\<close>):
  \<open>Stmts\<close> is the address of the statement store, \<open>Mux\<close> of the lock. The \<open>Tx\<close>
  field has the interface type \<^verbatim>\<open>Tx\<close>; the values of \<open>ConnPool\<close> that implement it are
  the transactions and the transactional wrapper (\<open>implements_Tx\<close>).
\<close>

datatype ConnPool =
    NilConnPool
  | SqlDB nat
  | SqlTx "nat option"
  | DBPool PreparedStmtDB
  | TXPool PreparedStmtTX
and PreparedStmtDB =
    PreparedStmtDB (Stmts: "nat option") (Mux: nat) (ConnPool: ConnPool)
and PreparedStmtTX =
    PreparedStmtTX (Tx: ConnPool) (TX_PreparedStmtDB: PreparedStmtDB)

fun implements_Tx :: "ConnPool \<Rightarrow> bool" where
  "implements_Tx (SqlTx t) = True"
| "implements_Tx (TXPool p) = True"
| "implements_Tx c = False"

text \<open>\<^verbatim>\<open>reflect.ValueOf(v).IsNil()\<close> on a pointer-kinded interface value.\<close>

fun IsNil :: "ConnPool \<Rightarrow> bool" where
  "IsNil (SqlTx None) = True"
| "IsNil c = False"

section \<open>Compiled statements and the statement store\<close>

text \<open>
  Modelled from the spec: package \<^verbatim>\<open>internal/stmt_store\<close> (the types \<^verbatim>\<open>Stmt\<close> and
  \<^verbatim>\<open>Store\<close> with \<^verbatim>\<open>Get\<close>, \<^verbatim>\<open>Set\<close>, \<^verbatim>\<open>Delete\<close>, \<^verbatim>\<open>New\<close> and \<^verbatim>\<open>Stmt.Error\<close>) is not among
  the source files. A compiled statement "owns a driver-level prepared handle, a flag
  marking whether it was compiled inside a transaction, and a captured compile-time
  error"; the store is "a bounded mapping from Query Template to Compiled Statement".
  Eviction by capacity and by age is not modelled.
\<close>

record Stmt =
  Stmt_handle :: "nat option"
  Transaction :: bool
  prepareErr :: "error option"

definition Stmt_Error :: "Stmt \<Rightarrow> error option" where
  "Stmt_Error stmt = prepareErr stmt"

record Row =
  Row_err :: "error option"
  Row_data :: "nat option"

text \<open>
  The database driver is outside the program: what it answers is a parameter of the model.
\<close>

record driver =
  PrepareContext :: "ConnPool \<Rightarrow> string \<Rightarrow> error + nat"
  StmtExec :: "nat \<Rightarrow> nat list \<Rightarrow> nat option \<times> error option"
  StmtQuery :: "nat \<Rightarrow> nat list \<Rightarrow> nat option \<times> error option"
  StmtQueryRow :: "nat \<Rightarrow> nat list \<Rightarrow> Row"
  TxStmt :: "nat \<Rightarrow> nat \<Rightarrow> nat"
  TxCommit :: "nat \<Rightarrow> error option"
  TxRollback :: "nat \<Rightarrow> error option"

datatype lock_event = RLock nat | RUnlock nat | Lock nat | Unlock nat

section \<open>Handles, configuration and request state (\<^verbatim>\<open>gorm.go\<close>)\<close>

datatype Dialector = NilDialector | Dialector (Translate: "(error \<Rightarrow> error) option")

record Plugin =
  Name :: string
  Initialize :: "nat \<Rightarrow> error option"

text \<open>
  \<^verbatim>\<open>Config\<close>: the fields the modelled functions read or write. \<open>Plugins\<close> (a Go map) and
  \<open>cacheStore\<close> (a \<^verbatim>\<open>*sync.Map\<close>) are references: copying a \<^verbatim>\<open>Config\<close> copies the address.
  The other fields are written only by \<^verbatim>\<open>Session\<close>, on its private copy, so a handle
  carries its \<^verbatim>\<open>Config\<close> by value.
\<close>

record Config =
  SkipDefaultTransaction :: bool
  FullSaveAssociations :: bool
  Logger :: "nat option"
  NowFunc :: "nat option"
  DryRun :: bool
  PrepareStmt :: bool
  PrepareStmtMaxSize :: int
  PrepareStmtTTL :: int
  DisableNestedTransaction :: bool
  AllowGlobalUpdate :: bool
  QueryFields :: bool
  CreateBatchSize :: int
  TranslateError :: bool
  PropagateUnscoped :: bool
  Config_ConnPool :: ConnPool
  Config_Dialector :: Dialector
  Plugins :: nat
  cacheStore :: nat

text \<open>
  \<^verbatim>\<open>DB\<close>: \<open>Statement\<close> is the address of the request object; \<open>clone\<close> is the generation
  marker, an \<^verbatim>\<open>int\<close> that is only ever assigned 0 (the zero value), 1 and 2.
\<close>

record DB =
  DB_Config :: Config
  Error :: "error option"
  RowsAffected :: int
  Statement :: nat
  clone :: nat

text \<open>
  \<^verbatim>\<open>Statement\<close> (declared in \<^verbatim>\<open>statement.go\<close>, which is not among the source files): the
  fields \<^verbatim>\<open>gorm.go\<close> names. \<open>Statement_DB\<close> is the back-reference to the owning handle.
\<close>

record Statement =
  Statement_DB :: nat
  Statement_ConnPool :: ConnPool
  Context :: "nat option"
  Clauses :: "string \<rightharpoonup> nat"
  Vars :: "nat list"
  SkipHooks :: bool
  Unscoped :: bool

record Session =
  S_DryRun :: bool
  S_PrepareStmt :: bool
  S_NewDB :: bool
  S_Initialized :: bool
  S_SkipHooks :: bool
  S_SkipDefaultTransaction :: bool
  S_DisableNestedTransaction :: bool
  S_AllowGlobalUpdate :: bool
  S_FullSaveAssociations :: bool
  S_PropagateUnscoped :: bool
  S_QueryFields :: bool
  S_Context :: "nat option"
  S_Logger :: "nat option"
  S_NowFunc :: "nat option"
  S_CreateBatchSize :: int

section \<open>The program's memory\<close>

text \<open>
  Everything reached through a pointer lives in the \<open>world\<close>: \<open>nxt\<close> is the next free
  address, \<open>handles\<close>, \<open>statements\<close>, \<open>caches\<close>, \<open>registries\<close> and \<open>stores\<close> hold the
  \<^verbatim>\<open>DB\<close>, \<^verbatim>\<open>Statement\<close>, \<^verbatim>\<open>sync.Map\<close>, plugin-map and statement-store objects by address.
  \<open>locks\<close> records the lock operations in order, \<open>compiled\<close> the driver compilations and
  \<open>initialized\<close> the plugin initialisations, so that "under a read lock", "without
  recompiling" and "exactly once" are observable.
\<close>

record world =
  nxt :: nat
  handles :: "nat \<Rightarrow> DB"
  statements :: "nat \<Rightarrow> Statement"
  caches :: "nat \<Rightarrow> (string \<rightharpoonup> PreparedStmtDB)"
  registries :: "nat \<Rightarrow> (string \<rightharpoonup> Plugin)"
  stores :: "nat \<Rightarrow> (string \<rightharpoonup> Stmt)"
  locks :: "lock_event list"
  compiled :: "(ConnPool \<times> string) list"
  initialized :: "(string \<times> nat) list"

definition log_lock :: "lock_event \<Rightarrow> world \<Rightarrow> world" where
  "log_lock ev w = w\<lparr>locks := locks w @ [ev]\<rparr>"

section \<open>The statement store's operations\<close>

text \<open>
  Modelled from the spec: \<^verbatim>\<open>Store.Get\<close>, \<^verbatim>\<open>Store.Set\<close> and \<^verbatim>\<open>Store.Delete\<close> of the absent
  package \<^verbatim>\<open>internal/stmt_store\<close>: lookup in the mapping, insertion under the template,
  and "evict(template): removes and releases an entry; idempotent if absent".
\<close>

definition Store_Get :: "world \<Rightarrow> nat \<Rightarrow> string \<Rightarrow> Stmt option" where
  "Store_Get w r query = stores w r query"

definition Store_Set :: "world \<Rightarrow> nat \<Rightarrow> string \<Rightarrow> Stmt \<Rightarrow> world" where
  "Store_Set w r query stmt = w\<lparr>stores := (stores w)(r := (stores w r)(query \<mapsto> stmt))\<rparr>"

definition Store_Delete :: "world \<Rightarrow> nat \<Rightarrow> string \<Rightarrow> world" where
  "Store_Delete w r query = w\<lparr>stores := (stores w)(r := (stores w r)(query := None))\<rparr>"

text \<open>
  Modelled from the spec: \<^verbatim>\<open>Store.New(ctx, key, isTransaction, conn, locker)\<close> of the absent
  package: "compile a new statement against connection, tag it with in_transaction,
  insert into the store under template, and return it", the compile error being
  "cached too". \<^verbatim>\<open>prepare\<close> hands its write lock to \<^verbatim>\<open>New\<close> and does not release it
  on this path itself, so the release is \<^verbatim>\<open>New\<close>'s.
\<close>

definition Store_New ::
  "driver \<Rightarrow> world \<Rightarrow> nat \<Rightarrow> string \<Rightarrow> bool \<Rightarrow> ConnPool \<Rightarrow> nat \<Rightarrow> (Stmt \<times> error option) \<times> world"
where
  "Store_New drv w r key isTransaction conn locker =
     (let stmt = (case PrepareContext drv conn key of
                    Inl e \<Rightarrow> \<lparr>Stmt_handle = None, Transaction = isTransaction, prepareErr = Some e\<rparr>
                  | Inr h \<Rightarrow> \<lparr>Stmt_handle = Some h, Transaction = isTransaction, prepareErr = None\<rparr>);
          w1 = w\<lparr>compiled := compiled w @ [(conn, key)]\<rparr>;
          w2 = Store_Set w1 r key stmt;
          w3 = log_lock (Unlock locker) w2
      in ((stmt, prepareErr stmt), w3))"

section \<open>\<^verbatim>\<open>PreparedStmtDB.prepare\<close>\<close>

text \<open>
  The guarded lookup that \<^verbatim>\<open>prepare\<close> performs twice (lines 76--82 and 88--93):
  \<^verbatim>\<open>db.Stmts != nil\<close>, then \<^verbatim>\<open>Get(query)\<close> found and
  \<^verbatim>\<open>!stmt.Transaction || isTransaction\<close>.
\<close>

definition usable_entry :: "world \<Rightarrow> PreparedStmtDB \<Rightarrow> bool \<Rightarrow> string \<Rightarrow> Stmt option" where
  "usable_entry w db isTransaction query =
     (case Stmts db of
        None \<Rightarrow> None
      | Some r \<Rightarrow>
          (case Store_Get w r query of
             None \<Rightarrow> None
           | Some stmt \<Rightarrow> if \<not> Transaction stmt \<or> isTransaction then Some stmt else None))"

text \<open>
  \<open>others\<close> is what the other goroutines do to the memory between the release of the
  read lock and the acquisition of the write lock. With \<^verbatim>\<open>db.Stmts == nil\<close> both lookups
  are skipped and the call \<^verbatim>\<open>db.Stmts.New\<close> panics.
\<close>

definition prepare ::
  "driver \<Rightarrow> (world \<Rightarrow> world) \<Rightarrow> world \<Rightarrow> PreparedStmtDB \<Rightarrow> ConnPool \<Rightarrow> bool \<Rightarrow> string
     \<Rightarrow> (panic + Stmt \<times> error option) \<times> world"
where
  "prepare drv others w db conn isTransaction query =
     (let w1 = log_lock (RLock (Mux db)) w in
      case usable_entry w1 db isTransaction query of
        Some stmt \<Rightarrow> (Inr (stmt, Stmt_Error stmt), log_lock (RUnlock (Mux db)) w1)
      | None \<Rightarrow>
          (let w2 = log_lock (RUnlock (Mux db)) w1;
               w3 = others w2;
               w4 = log_lock (Lock (Mux db)) w3 in
           case usable_entry w4 db isTransaction query of
             Some stmt \<Rightarrow> (Inr (stmt, Stmt_Error stmt), log_lock (Unlock (Mux db)) w4)
           | None \<Rightarrow>
               (case Stmts db of
                  None \<Rightarrow> (Inl NilPointerDereference, w4)
                | Some r \<Rightarrow>
                    (case Store_New drv w4 r query isTransaction conn (Mux db) of
                       (res, w5) \<Rightarrow> (Inr res, w5)))))"

text \<open>
  The memory as \<^verbatim>\<open>prepare\<close> leaves it after its read phase (lines 75--83), and at the
  moment it holds the write lock (line 87).
\<close>

definition read_phase :: "world \<Rightarrow> PreparedStmtDB \<Rightarrow> world" where
  "read_phase w db = log_lock (RUnlock (Mux db)) (log_lock (RLock (Mux db)) w)"

definition write_locked :: "(world \<Rightarrow> world) \<Rightarrow> world \<Rightarrow> PreparedStmtDB \<Rightarrow> world" where
  "write_locked others w db = log_lock (Lock (Mux db)) (others (read_phase w db))"

section \<open>Execution through the prepared pool\<close>

text \<open>
  Modelled from the spec: the methods \<^verbatim>\<open>ExecContext\<close>, \<^verbatim>\<open>QueryContext\<close> and
  \<^verbatim>\<open>QueryRowContext\<close> of the absent \<^verbatim>\<open>stmt_store.Stmt\<close> run the driver-level handle the
  statement owns; a statement without a handle panics.
\<close>

definition Stmt_ExecContext :: "driver \<Rightarrow> Stmt \<Rightarrow> nat list \<Rightarrow> panic + nat option \<times> error option" where
  "Stmt_ExecContext drv stmt args =
     (case Stmt_handle stmt of None \<Rightarrow> Inl NilPointerDereference | Some h \<Rightarrow> Inr (StmtExec drv h args))"

definition Stmt_QueryContext :: "driver \<Rightarrow> Stmt \<Rightarrow> nat list \<Rightarrow> panic + nat option \<times> error option" where
  "Stmt_QueryContext drv stmt args =
     (case Stmt_handle stmt of None \<Rightarrow> Inl NilPointerDereference | Some h \<Rightarrow> Inr (StmtQuery drv h args))"

definition Stmt_QueryRowContext :: "driver \<Rightarrow> Stmt \<Rightarrow> nat list \<Rightarrow> panic + Row" where
  "Stmt_QueryRowContext drv stmt args =
     (case Stmt_handle stmt of None \<Rightarrow> Inl NilPointerDereference | Some h \<Rightarrow> Inr (StmtQueryRow drv h args))"

text \<open>\<^verbatim>\<open>db.Stmts.Delete(query)\<close> as the execution methods call it.\<close>

definition Stmts_Delete :: "world \<Rightarrow> PreparedStmtDB \<Rightarrow> string \<Rightarrow> panic + world" where
  "Stmts_Delete w db query =
     (case Stmts db of None \<Rightarrow> Inl NilPointerDereference | Some r \<Rightarrow> Inr (Store_Delete w r query))"

text \<open>
  The tail shared by \<^verbatim>\<open>ExecContext\<close> and \<^verbatim>\<open>QueryContext\<close> of both wrappers:
  \<^verbatim>\<open>if errors.Is(err, driver.ErrBadConn) { Stmts.Delete(query) }; return result, err\<close>.
\<close>

definition evict_on_bad_conn ::
  "world \<Rightarrow> PreparedStmtDB \<Rightarrow> string \<Rightarrow> nat option \<times> error option
     \<Rightarrow> (panic + nat option \<times> error option) \<times> world"
where
  "evict_on_bad_conn w db query res =
     (if errors_Is_opt (snd res) ErrBadConn
      then (case Stmts_Delete w db query of
              Inl p \<Rightarrow> (Inl p, w)
            | Inr w' \<Rightarrow> (Inr res, w'))
      else (Inr res, w))"

definition PreparedStmtDB_ExecContext ::
  "driver \<Rightarrow> (world \<Rightarrow> world) \<Rightarrow> world \<Rightarrow> PreparedStmtDB \<Rightarrow> string \<Rightarrow> nat list
     \<Rightarrow> (panic + nat option \<times> error option) \<times> world"
where
  "PreparedStmtDB_ExecContext drv others w db query args =
     (case prepare drv others w db (ConnPool db) False query of
        (Inl p, w1) \<Rightarrow> (Inl p, w1)
      | (Inr (stmt, Some e), w1) \<Rightarrow> (Inr (None, Some e), w1)
      | (Inr (stmt, None), w1) \<Rightarrow>
          (case Stmt_ExecContext drv stmt args of
             Inl p \<Rightarrow> (Inl p, w1)
           | Inr res \<Rightarrow> evict_on_bad_conn w1 db query res))"

definition PreparedStmtDB_QueryContext ::
  "driver \<Rightarrow> (world \<Rightarrow> world) \<Rightarrow> world \<Rightarrow> PreparedStmtDB \<Rightarrow> string \<Rightarrow> nat list
     \<Rightarrow> (panic + nat option \<times> error option) \<times> world"
where
  "PreparedStmtDB_QueryContext drv others w db query args =
     (case prepare drv others w db (ConnPool db) False query of
        (Inl p, w1) \<Rightarrow> (Inl p, w1)
      | (Inr (stmt, Some e), w1) \<Rightarrow> (Inr (None, Some e), w1)
      | (Inr (stmt, None), w1) \<Rightarrow>
          (case Stmt_QueryContext drv stmt args of
             Inl p \<Rightarrow> (Inl p, w1)
           | Inr res \<Rightarrow> evict_on_bad_conn w1 db query res))"

text \<open>\<^verbatim>\<open>&sql.Row{}\<close>, returned when \<^verbatim>\<open>prepare\<close> fails.\<close>

definition empty_Row :: Row where
  "empty_Row = \<lparr>Row_err = None, Row_data = None\<rparr>"

definition PreparedStmtDB_QueryRowContext ::
  "driver \<Rightarrow> (world \<Rightarrow> world) \<Rightarrow> world \<Rightarrow> PreparedStmtDB \<Rightarrow> string \<Rightarrow> nat list
     \<Rightarrow> (panic + Row) \<times> world"
where
  "PreparedStmtDB_QueryRowContext drv others w db query args =
     (case prepare drv others w db (ConnPool db) False query of
        (Inl p, w1) \<Rightarrow> (Inl p, w1)
      | (Inr (stmt, Some e), w1) \<Rightarrow> (Inr empty_Row, w1)
      | (Inr (stmt, None), w1) \<Rightarrow> (Stmt_QueryRowContext drv stmt args, w1))"

section \<open>The transactional prepared wrapper\<close>

text \<open>
  \<^verbatim>\<open>tx.Tx.StmtContext(ctx, stmt.Stmt)\<close>: the method is promoted from the embedded \<^verbatim>\<open>Tx\<close>, so a
  wrapper held as \<^verbatim>\<open>Tx\<close> passes the call on to its own \<^verbatim>\<open>Tx\<close>; called through a nil
  value it panics.
\<close>

fun Tx_StmtContext :: "driver \<Rightarrow> ConnPool \<Rightarrow> nat \<Rightarrow> panic + nat" where
  "Tx_StmtContext drv (SqlTx (Some t)) h = Inr (TxStmt drv t h)"
| "Tx_StmtContext drv (TXPool (PreparedStmtTX t d)) h = Tx_StmtContext drv t h"
| "Tx_StmtContext drv c h = Inl NilPointerDereference"

definition Tx_bound_Stmt :: "driver \<Rightarrow> ConnPool \<Rightarrow> Stmt \<Rightarrow> panic + nat" where
  "Tx_bound_Stmt drv t stmt =
     (case Stmt_handle stmt of
        None \<Rightarrow> Inl NilPointerDereference
      | Some h \<Rightarrow> Tx_StmtContext drv t h)"



definition PreparedStmtTX_QueryRowContext ::
  "driver \<Rightarrow> (world \<Rightarrow> world) \<Rightarrow> world \<Rightarrow> PreparedStmtTX \<Rightarrow> string \<Rightarrow> nat list
     \<Rightarrow> (panic + Row) \<times> world"
where
  "PreparedStmtTX_QueryRowContext drv others w tx query args =
     (case prepare drv others w (TX_PreparedStmtDB tx) (Tx tx) True query of
        (Inl p, w1) \<Rightarrow> (Inl p, w1)
      | (Inr (stmt, Some e), w1) \<Rightarrow> (Inr empty_Row, w1)
      | (Inr (stmt, None), w1) \<Rightarrow>
          (case Tx_bound_Stmt drv (Tx tx) stmt of
             Inl p \<Rightarrow> (Inl p, w1)
           | Inr h \<Rightarrow> (Inr (StmtQueryRow drv h args), w1)))"

text \<open>
  \<^verbatim>\<open>Commit\<close> and \<^verbatim>\<open>Rollback\<close> (lines 174--186). \<open>Tx_Commit\<close> is the call
  \<^verbatim>\<open>tx.Tx.Commit()\<close> through the interface: a \<^verbatim>\<open>*sql.Tx\<close> asks the driver, a wrapper held as
  \<^verbatim>\<open>Tx\<close> runs its own \<^verbatim>\<open>Commit\<close>. The guard is
  \<^verbatim>\<open>tx.Tx != nil && !reflect.ValueOf(tx.Tx).IsNil()\<close>. Go's typing keeps values that do not
  implement \<^verbatim>\<open>Tx\<close> out of the field; the last equation of the dispatch covers them and the
  nil values, through which a method call panics.
\<close>

fun Tx_Commit :: "driver \<Rightarrow> ConnPool \<Rightarrow> panic + error option"
and Commit :: "driver \<Rightarrow> PreparedStmtTX \<Rightarrow> panic + error option" where
  "Tx_Commit drv (SqlTx (Some t)) = Inr (TxCommit drv t)"
| "Tx_Commit drv (TXPool p) = Commit drv p"
| "Tx_Commit drv c = Inl NilPointerDereference"
| "Commit drv (PreparedStmtTX t d) =
     (if t \<noteq> NilConnPool \<and> \<not> IsNil t then Tx_Commit drv t
      else Inr (Some ErrInvalidTransaction))"

fun Tx_Rollback :: "driver \<Rightarrow> ConnPool \<Rightarrow> panic + error option"
and Rollback :: "driver \<Rightarrow> PreparedStmtTX \<Rightarrow> panic + error option" where
  "Tx_Rollback drv (SqlTx (Some t)) = Inr (TxRollback drv t)"
| "Tx_Rollback drv (TXPool p) = Rollback drv p"
| "Tx_Rollback drv c = Inl NilPointerDereference"
| "Rollback drv (PreparedStmtTX t d) =
     (if t \<noteq> NilConnPool \<and> \<not> IsNil t then Tx_Rollback drv t
      else Inr (Some ErrInvalidTransaction))"

section \<open>Handles: \<^verbatim>\<open>getInstance\<close>, \<^verbatim>\<open>Session\<close>, \<^verbatim>\<open>AddError\<close>, \<^verbatim>\<open>Use\<close>\<close>

text \<open>A write through a statement pointer: \<^verbatim>\<open>stmt.Field = v\<close> for the object at address \<open>s\<close>.\<close>

definition update_Statement :: "world \<Rightarrow> nat \<Rightarrow> (Statement \<Rightarrow> Statement) \<Rightarrow> world" where
  "update_Statement w s f = w\<lparr>statements := (statements w)(s := f (statements w s))\<rparr>"

text \<open>
  Modelled from the spec: \<^verbatim>\<open>Statement.clone\<close> (in the absent \<^verbatim>\<open>statement.go\<close>) "performs a
  full structural copy of the request object": a new object, at a fresh address, with the
  fields of the old one.
\<close>

definition Statement_clone :: "world \<Rightarrow> nat \<Rightarrow> nat \<times> world" where
  "Statement_clone w s =
     (nxt w, w\<lparr>nxt := Suc (nxt w), statements := (statements w)(nxt w := statements w s)\<rparr>)"

text \<open>
  \<^verbatim>\<open>getInstance\<close> (lines 516--545). \<^verbatim>\<open>&DB{Config: db.Config, Error: db.Error}\<close> leaves
  \<^verbatim>\<open>RowsAffected\<close> and \<^verbatim>\<open>clone\<close> at their zero values; the fields of the new
  \<^verbatim>\<open>Statement\<close> that the literal does not name are zero as well.
\<close>

definition getInstance :: "world \<Rightarrow> nat \<Rightarrow> nat \<times> world" where
  "getInstance w db =
     (let d = handles w db in
      if clone d > 0 then
        (let tx = nxt w;
             w1 = w\<lparr>nxt := Suc (nxt w)\<rparr> in
         if clone d = 1 then
           (let s = nxt w1;
                old = statements w1 (Statement d);
                st = \<lparr>Statement_DB = tx,
                      Statement_ConnPool = Statement_ConnPool old,
                      Context = Context old,
                      Clauses = Map.empty,
                      Vars = [],
                      SkipHooks = SkipHooks old,
                      Unscoped = (if PropagateUnscoped (DB_Config d) then Unscoped old else False)\<rparr>;
                w2 = w1\<lparr>nxt := Suc s, statements := (statements w1)(s := st)\<rparr>
            in (tx, w2\<lparr>handles := (handles w2)(tx :=
                  \<lparr>DB_Config = DB_Config d, Error = Error d, RowsAffected = 0,
                   Statement = s, clone = 0\<rparr>)\<rparr>))
         else
           (case Statement_clone w1 (Statement d) of
              (s, w2) \<Rightarrow>
                (let w3 = update_Statement w2 s (\<lambda>st. st\<lparr>Statement_DB := tx\<rparr>)
                 in (tx, w3\<lparr>handles := (handles w3)(tx :=
                       \<lparr>DB_Config = DB_Config d, Error = Error d, RowsAffected = 0,
                        Statement = s, clone = 0\<rparr>)\<rparr>))))
      else (db, w))"

text \<open>\<^verbatim>\<open>preparedStmtDBKey\<close> (line 18).\<close>

definition preparedStmtDBKey :: string where
  "preparedStmtDBKey = ''preparedStmt''"

text \<open>
  \<^verbatim>\<open>NewPreparedStmtDB\<close> (lines 34--40): a new lock and a new store. Modelled from the spec:
  \<^verbatim>\<open>stmt_store.New(maxSize, ttl)\<close> of the absent package makes an empty store.
\<close>

definition NewPreparedStmtDB :: "world \<Rightarrow> ConnPool \<Rightarrow> int \<Rightarrow> int \<Rightarrow> PreparedStmtDB \<times> world" where
  "NewPreparedStmtDB w connPool maxSize ttl =
     (PreparedStmtDB (Some (nxt w)) (Suc (nxt w)) connPool,
      w\<lparr>nxt := Suc (Suc (nxt w)), stores := (stores w)(nxt w := Map.empty)\<rparr>)"

text \<open>
  The prepare-mode block of \<^verbatim>\<open>Session\<close> (lines 369--394), for the parent handle \<open>d\<close>, the
  derived handle's statement at \<open>s\<close> and its configuration \<open>c\<close>. First the prepared pool
  is loaded from the parent's cache under the fixed key, or made and stored there (lines
  372--377); then the type switch wraps the statement's connection: \<^verbatim>\<open>case Tx\<close> takes every
  value whose type implements \<^verbatim>\<open>Tx\<close> (lines 379--391).
\<close>

definition cached_PreparedStmtDB :: "world \<Rightarrow> Config \<Rightarrow> PreparedStmtDB \<times> world" where
  "cached_PreparedStmtDB w c =
     (case caches w (cacheStore c) preparedStmtDBKey of
        Some v \<Rightarrow> (v, w)
      | None \<Rightarrow>
          (case NewPreparedStmtDB w (Config_ConnPool c) (PrepareStmtMaxSize c) (PrepareStmtTTL c) of
             (p, w') \<Rightarrow>
               (p, w'\<lparr>caches := (caches w')(cacheStore c :=
                      (caches w' (cacheStore c))(preparedStmtDBKey \<mapsto> p))\<rparr>)))"

definition wrap_ConnPool :: "ConnPool \<Rightarrow> PreparedStmtDB \<Rightarrow> ConnPool \<Rightarrow> ConnPool" where
  "wrap_ConnPool t preparedStmt pool =
     (if implements_Tx t
      then TXPool (PreparedStmtTX t preparedStmt)
      else DBPool (PreparedStmtDB (Stmts preparedStmt) (Mux preparedStmt) pool))"

definition Session_PrepareStmt :: "world \<Rightarrow> DB \<Rightarrow> nat \<Rightarrow> Config \<Rightarrow> Config \<times> world" where
  "Session_PrepareStmt w d s c =
     (case cached_PreparedStmtDB w (DB_Config d) of
        (preparedStmt, w1) \<Rightarrow>
          (let pool = wrap_ConnPool (Statement_ConnPool (statements w1 s)) preparedStmt
                        (Config_ConnPool (DB_Config d));
               w2 = update_Statement w1 s (\<lambda>st. st\<lparr>Statement_ConnPool := pool\<rparr>)
           in (c\<lparr>Config_ConnPool := pool, PrepareStmt := True\<rparr>, w2)))"

text \<open>
  \<^verbatim>\<open>Session\<close> (lines 330--429), in the order of the source. The new handle's \<^verbatim>\<open>Config\<close>
  is a copy of the parent's; \<open>Session_flags_first\<close> is the run of writes to it before the
  statement is looked at (lines 340--358), \<open>Session_flags_last\<close> the run after the
  prepare-mode block (lines 400--422; the generation marker, set in between at line 405,
  is a field of the handle and not of its \<^verbatim>\<open>Config\<close>).
\<close>

definition Session_flags_first :: "Config \<Rightarrow> Session \<Rightarrow> Config" where
  "Session_flags_first c0 config =
     (let c1 = (if S_CreateBatchSize config > 0
                then c0\<lparr>CreateBatchSize := S_CreateBatchSize config\<rparr> else c0);
          c2 = (if S_SkipDefaultTransaction config then c1\<lparr>SkipDefaultTransaction := True\<rparr> else c1);
          c3 = (if S_AllowGlobalUpdate config then c2\<lparr>AllowGlobalUpdate := True\<rparr> else c2);
          c4 = (if S_FullSaveAssociations config then c3\<lparr>FullSaveAssociations := True\<rparr> else c3)
      in if S_PropagateUnscoped config then c4\<lparr>PropagateUnscoped := True\<rparr> else c4)"

definition Session_flags_last :: "Config \<Rightarrow> Session \<Rightarrow> Config" where
  "Session_flags_last c6 config =
     (let c7 = (if S_DisableNestedTransaction config
                then c6\<lparr>DisableNestedTransaction := True\<rparr> else c6);
          c8 = (if S_DryRun config then c7\<lparr>DryRun := True\<rparr> else c7);
          c9 = (if S_QueryFields config then c8\<lparr>QueryFields := True\<rparr> else c8);
          c10 = (if S_Logger config \<noteq> None then c9\<lparr>Logger := S_Logger config\<rparr> else c9)
      in if S_NowFunc config \<noteq> None then c10\<lparr>NowFunc := S_NowFunc config\<rparr> else c10)"

text \<open>
  Lines 360--367: the statement of the new handle \<open>tx\<close> is the parent's, or a clone of it
  bound to \<open>tx\<close> when a context, prepare mode or hook skipping is asked for; a context is
  then written to the clone.
\<close>

definition Session_Statement :: "world \<Rightarrow> DB \<Rightarrow> nat \<Rightarrow> Session \<Rightarrow> nat \<times> world" where
  "Session_Statement w d tx config =
     (case (if S_Context config \<noteq> None \<or> S_PrepareStmt config \<or> S_SkipHooks config
            then (case Statement_clone w (Statement d) of
                    (s, w') \<Rightarrow> (s, update_Statement w' s (\<lambda>st. st\<lparr>Statement_DB := tx\<rparr>)))
            else (Statement d, w)) of
        (s, w2) \<Rightarrow>
          (s, if S_Context config \<noteq> None
              then update_Statement w2 s (\<lambda>st. st\<lparr>Context := S_Context config\<rparr>) else w2))"

text \<open>Everything of \<^verbatim>\<open>Session\<close> before its last block: the new handle, at the address \<open>tx\<close>.\<close>

definition Session_derive :: "world \<Rightarrow> nat \<Rightarrow> Session \<Rightarrow> nat \<times> world" where
  "Session_derive w db config =
     (let d = handles w db;
          tx = nxt w;
          w1 = w\<lparr>nxt := Suc (nxt w)\<rparr>;
          c5 = Session_flags_first (DB_Config d) config
      in case Session_Statement w1 d tx config of
        (s, w3) \<Rightarrow>
          (case (if S_PrepareStmt config then Session_PrepareStmt w3 d s c5 else (c5, w3)) of
             (c6, w4) \<Rightarrow>
               (let w5 = (if S_SkipHooks config
                          then update_Statement w4 s (\<lambda>st. st\<lparr>SkipHooks := True\<rparr>) else w4);
                    c11 = Session_flags_last c6 config;
                    cl = (if \<not> S_NewDB config then 2 else 1)
                in (tx, w5\<lparr>handles := (handles w5)(tx :=
                          \<lparr>DB_Config = c11, Error = Error d, RowsAffected = 0,
                           Statement = s, clone = cl\<rparr>)\<rparr>))))"

text \<open>Lines 424--428: \<^verbatim>\<open>if config.Initialized { tx = tx.getInstance() }; return tx\<close>.\<close>

definition Session :: "world \<Rightarrow> nat \<Rightarrow> Session \<Rightarrow> nat \<times> world" where
  "Session w db config =
     (case Session_derive w db config of
        (tx, w6) \<Rightarrow> if S_Initialized config then getInstance w6 tx else (tx, w6))"

text \<open>
  \<^verbatim>\<open>AddError\<close> (lines 476--491). \<^verbatim>\<open>fmt.Errorf("%v; %w", db.Error, err)\<close> formats both
  errors by their text and wraps the second. A translator maps an error to an error.
\<close>

definition fmt_Errorf :: "error \<Rightarrow> error \<Rightarrow> error" where
  "fmt_Errorf old err = Errorf (Error_text old @ ''; '' @ Error_text err) err"

definition translated :: "Config \<Rightarrow> error \<Rightarrow> error" where
  "translated c err =
     (if TranslateError c
      then (case Config_Dialector c of
              Dialector (Some translate) \<Rightarrow> translate err
            | _ \<Rightarrow> err)
      else err)"

definition AddError :: "world \<Rightarrow> nat \<Rightarrow> error option \<Rightarrow> error option \<times> world" where
  "AddError w db err =
     (let d = handles w db in
      case err of
        None \<Rightarrow> (Error d, w)
      | Some e \<Rightarrow>
          (let e1 = translated (DB_Config d) e;
               new = (case Error d of None \<Rightarrow> e1 | Some old \<Rightarrow> fmt_Errorf old e1)
           in (Some new, w\<lparr>handles := (handles w)(db := d\<lparr>Error := Some new\<rparr>)\<rparr>)))"

text \<open>
  \<^verbatim>\<open>Use\<close> (lines 604--614). The registry \<^verbatim>\<open>db.Plugins\<close> is the map at the address the
  configuration holds (\<^verbatim>\<open>Open\<close> allocates it, lines 262--264). A plugin is outside the
  program: of its \<^verbatim>\<open>Initialize\<close> the model keeps the error it returns for the handle it is
  given, and the call itself in \<open>initialized\<close>.
\<close>

definition Use :: "world \<Rightarrow> nat \<Rightarrow> Plugin \<Rightarrow> error option \<times> world" where
  "Use w db plugin =
     (let d = handles w db;
          name = Name plugin;
          reg = Plugins (DB_Config d)
      in case registries w reg name of
           Some registered \<Rightarrow> (Some ErrRegistered, w)
         | None \<Rightarrow>
             (let w1 = w\<lparr>initialized := initialized w @ [(name, db)]\<rparr>
              in case Initialize plugin db of
                   Some err \<Rightarrow> (Some err, w1)
                 | None \<Rightarrow>
                     (None, w1\<lparr>registries := (registries w1)(reg :=
                              (registries w1 reg)(name \<mapsto> plugin))\<rparr>)))"

section \<open>Concrete inputs\<close>

text \<open>
  A driver, a prepared pool and a memory on which the theorems below are run. The driver
  compiles \<^verbatim>\<open>SELECT 1\<close> to the handle 5 and rejects every other template; an execution
  succeeds without arguments, reports a broken connection for the argument 1, a wrapped
  broken connection for the argument 2 and a constraint violation otherwise.
\<close>

definition example_driver :: driver where
  "example_driver =
     \<lparr>PrepareContext = (\<lambda>conn query.
         if query = ''SELECT 1'' then Inr 5 else Inl (ErrorsNew ''syntax error'')),
      StmtExec = (\<lambda>h args.
         if args = [] then (Some 1, None)
         else if args = [1] then (None, Some ErrBadConn)
         else if args = [2] then (None, Some (Errorf ''exec: driver: bad connection'' ErrBadConn))
         else (None, Some (ErrorsNew ''UNIQUE constraint failed''))),
      StmtQuery = (\<lambda>h args.
         if args = [] then (Some 1, None)
         else if args = [1] then (None, Some ErrBadConn)
         else (None, Some (ErrorsNew ''UNIQUE constraint failed''))),
      StmtQueryRow = (\<lambda>h args.
         if args = [] then \<lparr>Row_err = None, Row_data = Some 1\<rparr>
         else \<lparr>Row_err = Some ErrBadConn, Row_data = None\<rparr>),
      TxStmt = (\<lambda>t h. 100 * t + h),
      TxCommit = (\<lambda>t. None),
      TxRollback = (\<lambda>t. Some (ErrorsNew ''sql: transaction has already been committed or rolled back''))\<rparr>"

definition example_pool :: PreparedStmtDB where
  "example_pool = PreparedStmtDB (Some 0) 1 (SqlDB 2)"

definition example_Config :: Config where
  "example_Config =
     \<lparr>SkipDefaultTransaction = False, FullSaveAssociations = False, Logger = Some 0,
      NowFunc = Some 0, DryRun = False, PrepareStmt = False, PrepareStmtMaxSize = 0,
      PrepareStmtTTL = 0, DisableNestedTransaction = False, AllowGlobalUpdate = False,
      QueryFields = False, CreateBatchSize = 0, TranslateError = False,
      PropagateUnscoped = False, Config_ConnPool = SqlDB 2, Config_Dialector = Dialector None,
      Plugins = 3, cacheStore = 4\<rparr>"

definition example_Statement :: Statement where
  "example_Statement =
     \<lparr>Statement_DB = 5, Statement_ConnPool = SqlDB 2, Context = Some 0,
      Clauses = [''WHERE'' \<mapsto> 1], Vars = [7], SkipHooks = False, Unscoped = False\<rparr>"

definition example_DB :: DB where
  "example_DB =
     \<lparr>DB_Config = example_Config, Error = None, RowsAffected = 0, Statement = 6, clone = 1\<rparr>"

text \<open>
  The memory after \<^verbatim>\<open>Open\<close>: the root handle at address 5, its statement at 6, its plugin
  map at 3 and its cache at 4, both empty; an empty statement store at 0.
\<close>

definition example_world :: world where
  "example_world =
     \<lparr>nxt = 10,
      handles = (\<lambda>a. example_DB),
      statements = (\<lambda>a. example_Statement),
      caches = (\<lambda>a. Map.empty),
      registries = (\<lambda>a. Map.empty),
      stores = (\<lambda>a. Map.empty),
      locks = [],
      compiled = [],
      initialized = []\<rparr>"

text \<open>The statement \<^verbatim>\<open>SELECT 1\<close> compiled outside and inside a transaction, and a store with each.\<close>

definition example_Stmt :: Stmt where
  "example_Stmt = \<lparr>Stmt_handle = Some 5, Transaction = False, prepareErr = None\<rparr>"

definition example_tx_Stmt :: Stmt where
  "example_tx_Stmt = \<lparr>Stmt_handle = Some 5, Transaction = True, prepareErr = None\<rparr>"

definition cached_world :: world where
  "cached_world = example_world\<lparr>stores := (\<lambda>a. [''SELECT 1'' \<mapsto> example_Stmt])\<rparr>"

definition tx_cached_world :: world where
  "tx_cached_world = example_world\<lparr>stores := (\<lambda>a. [''SELECT 1'' \<mapsto> example_tx_Stmt])\<rparr>"

text \<open>A concurrent writer that inserts the compiled statement into the store at 0.\<close>

definition concurrent_writer :: "world \<Rightarrow> world" where
  "concurrent_writer w = Store_Set w 0 ''SELECT 1'' example_Stmt"

text \<open>The memory after \<^verbatim>\<open>SELECT 1\<close> has been prepared outside a transaction, from an empty store.\<close>

definition compiled_outside :: world where
  "compiled_outside =
     snd (prepare example_driver id example_world example_pool (SqlDB 2) False ''SELECT 1'')"

text \<open>
  A root handle whose dialector translates every error to gorm's duplicated-key error, with
  error translation switched on; two plugins, one whose initialisation succeeds and one
  whose initialisation fails.
\<close>

definition translating_world :: world where
  "translating_world =
     example_world\<lparr>handles := (\<lambda>a. example_DB\<lparr>DB_Config := example_Config
        \<lparr>TranslateError := True,
         Config_Dialector := Dialector (Some (\<lambda>e. ErrorsNew ''duplicated key not allowed''))\<rparr>\<rparr>)\<rparr>"

definition example_plugin :: Plugin where
  "example_plugin = \<lparr>Name = ''dbresolver'', Initialize = (\<lambda>db. None)\<rparr>"

definition failing_plugin :: Plugin where
  "failing_plugin = \<lparr>Name = ''tracing'', Initialize = (\<lambda>db. Some (ErrorsNew ''no exporter''))\<rparr>"

text \<open>
  The memory in which the handle at 5 is a derived handle (marker 2), and the one in which
  its statement's connection is a live transaction.
\<close>

definition derived_world :: world where
  "derived_world = example_world\<lparr>handles := (\<lambda>a. example_DB\<lparr>clone := 2\<rparr>)\<rparr>"

definition in_transaction_world :: world where
  "in_transaction_world =
     example_world\<lparr>statements := (\<lambda>a. example_Statement\<lparr>Statement_ConnPool := SqlTx (Some 3)\<rparr>)\<rparr>"

text \<open>A session without any flag.\<close>

definition plain_Session :: Session where
  "plain_Session =
     \<lparr>S_DryRun = False, S_PrepareStmt = False, S_NewDB = False, S_Initialized = False,
      S_SkipHooks = False, S_SkipDefaultTransaction = False, S_DisableNestedTransaction = False,
      S_AllowGlobalUpdate = False, S_FullSaveAssociations = False, S_PropagateUnscoped = False,
      S_QueryFields = False, S_Context = None, S_Logger = None, S_NowFunc = None,
      S_CreateBatchSize = 0\<rparr>"

section \<open>Properties of \<^verbatim>\<open>prepare\<close>\<close>

lemma Store_Get_log_lock [simp]: "Store_Get (log_lock ev w) r query = Store_Get w r query"
  by (simp add: Store_Get_def log_lock_def)

lemma usable_entry_log_lock [simp]:
  "usable_entry (log_lock ev w) db isTransaction query = usable_entry w db isTransaction query"
  by (simp add: usable_entry_def split: option.splits)

lemma usable_entry_Some:
  "Stmts db = Some r \<Longrightarrow> stores w r query = Some stmt \<Longrightarrow> \<not> Transaction stmt \<or> isTransaction
     \<Longrightarrow> usable_entry w db isTransaction query = Some stmt"
  by (auto simp add: usable_entry_def Store_Get_def)

lemma prepare_first_hit:
  assumes "usable_entry w db isTransaction query = Some stmt"
  shows "prepare drv others w db conn isTransaction query =
           (Inr (stmt, prepareErr stmt), read_phase w db)"
  using assms by (simp add: prepare_def Let_def read_phase_def Stmt_Error_def)




section \<open>Commit and rollback without a transaction\<close>

text \<open>
  C4. A transactional prepared wrapper whose \<^verbatim>\<open>Tx\<close> is nil (the nil interface, or a nil
  pointer inside the interface) answers \<^verbatim>\<open>Commit\<close> and \<^verbatim>\<open>Rollback\<close> with
  \<^verbatim>\<open>ErrInvalidTransaction\<close> and does not panic; with a transaction bound, both delegate to
  the transaction object and return its result (for a \<^verbatim>\<open>*sql.Tx\<close>, the driver's answer).
\<close>

theorem Commit_Rollback_nil_or_delegate:
  "(Tx tx = NilConnPool \<or> IsNil (Tx tx) \<longrightarrow>
      Commit drv tx = Inr (Some ErrInvalidTransaction) \<and>
      Rollback drv tx = Inr (Some ErrInvalidTransaction))
   \<and> (Tx tx \<noteq> NilConnPool \<and> \<not> IsNil (Tx tx) \<longrightarrow>
      Commit drv tx = Tx_Commit drv (Tx tx) \<and> Rollback drv tx = Tx_Rollback drv (Tx tx))
   \<and> (Tx tx = SqlTx (Some t) \<longrightarrow>
      Commit drv tx = Inr (TxCommit drv t) \<and> Rollback drv tx = Inr (TxRollback drv t))"
  by (cases tx) auto

theorem Commit_Rollback_witness:
  "Commit example_driver (PreparedStmtTX NilConnPool example_pool) = Inr (Some ErrInvalidTransaction)
   \<and> Rollback example_driver (PreparedStmtTX NilConnPool example_pool) = Inr (Some ErrInvalidTransaction)
   \<and> Commit example_driver (PreparedStmtTX (SqlTx None) example_pool) = Inr (Some ErrInvalidTransaction)
   \<and> Rollback example_driver (PreparedStmtTX (SqlTx None) example_pool) = Inr (Some ErrInvalidTransaction)
   \<and> Commit example_driver (PreparedStmtTX (SqlTx (Some 3)) example_pool) = Inr None
   \<and> Rollback example_driver (PreparedStmtTX (SqlTx (Some 3)) example_pool)
       = Inr (Some (ErrorsNew ''sql: transaction has already been committed or rolled back''))"
  using Commit_Rollback_nil_or_delegate [of "PreparedStmtTX NilConnPool example_pool" example_driver 3]
    Commit_Rollback_nil_or_delegate [of "PreparedStmtTX (SqlTx None) example_pool" example_driver 3]
    Commit_Rollback_nil_or_delegate [of "PreparedStmtTX (SqlTx (Some 3)) example_pool" example_driver 3]
  by (simp add: example_driver_def)

lemmas ex_defs = example_driver_def example_pool_def example_world_def cached_world_def
  tx_cached_world_def example_Stmt_def example_tx_Stmt_def concurrent_writer_def

lemmas run_defs = usable_entry_def Store_Get_def Store_Set_def Store_New_def Store_Delete_def
  log_lock_def read_phase_def write_locked_def Let_def

lemma read_phase_keeps [simp]:
  "stores (read_phase w db) = stores w" "compiled (read_phase w db) = compiled w"
  "locks (read_phase w db) = locks w @ [RLock (Mux db), RUnlock (Mux db)]"
  by (simp_all add: read_phase_def log_lock_def)

section \<open>The double-checked lookup\<close>



section \<open>A template compiled outside a transaction, requested inside one\<close>

text \<open>
  C1, as stated, fails. After \<^verbatim>\<open>SELECT 1\<close> has been compiled outside a transaction, the
  request made inside a transaction returns the very statement compiled outside (its
  \<open>Transaction\<close> flag is false); the driver has compiled once, and the store holds the one
  entry.
\<close>

theorem non_transactional_entry_reused_in_transaction:
  "fst (prepare example_driver id example_world example_pool (SqlDB 2) False ''SELECT 1'')
     = Inr (example_Stmt, None)
   \<and> fst (prepare example_driver id compiled_outside example_pool (SqlTx (Some 3)) True ''SELECT 1'')
     = Inr (example_Stmt, None)
   \<and> Transaction example_Stmt = False
   \<and> compiled (snd (prepare example_driver id compiled_outside example_pool (SqlTx (Some 3)) True ''SELECT 1''))
     = [(SqlDB 2, ''SELECT 1'')]
   \<and> stores (snd (prepare example_driver id compiled_outside example_pool (SqlTx (Some 3)) True ''SELECT 1'')) 0
     = [''SELECT 1'' \<mapsto> example_Stmt]"
  by (simp add: compiled_outside_def prepare_def ex_defs run_defs Stmt_Error_def)

text \<open>
  C1, amended. For every template whose cached entry was compiled outside a transaction, a
  \<^verbatim>\<open>prepare\<close> call made inside a transaction returns that same entry with its cached
  compile error, under the read lock: nothing is compiled and the store is unchanged, so
  the entry is not evicted; a later request outside the transaction returns the entry again.
\<close>

theorem non_transactional_entry_shared:
  "Stmts db = Some r \<Longrightarrow> stores w r query = Some e \<Longrightarrow> \<not> Transaction e \<Longrightarrow>
     prepare drv others w db conn True query = (Inr (e, prepareErr e), read_phase w db)
     \<and> stores (read_phase w db) = stores w
     \<and> compiled (read_phase w db) = compiled w
     \<and> prepare drv others' (read_phase w db) db conn' False query
         = (Inr (e, prepareErr e), read_phase (read_phase w db) db)"
proof -
  assume r: "Stmts db = Some r" and e: "stores w r query = Some e" and n: "\<not> Transaction e"
  have "usable_entry w db True query = Some e"
    using r e n by (simp add: usable_entry_Some)
  then have first: "prepare drv others w db conn True query = (Inr (e, prepareErr e), read_phase w db)"
    by (rule prepare_first_hit)
  have "usable_entry (read_phase w db) db False query = Some e"
    using r e n by (simp add: usable_entry_Some)
  then have "prepare drv others' (read_phase w db) db conn' False query
         = (Inr (e, prepareErr e), read_phase (read_phase w db) db)"
    by (rule prepare_first_hit)
  with first show ?thesis by simp
qed

theorem non_transactional_entry_shared_witness:
  "Stmts example_pool = Some 0 \<and> stores cached_world 0 ''SELECT 1'' = Some example_Stmt
   \<and> \<not> Transaction example_Stmt
   \<and> prepare example_driver id cached_world example_pool (SqlTx (Some 3)) True ''SELECT 1''
       = (Inr (example_Stmt, None), cached_world\<lparr>locks := [RLock 1, RUnlock 1]\<rparr>)
   \<and> prepare example_driver id (cached_world\<lparr>locks := [RLock 1, RUnlock 1]\<rparr>) example_pool (SqlDB 2)
         False ''SELECT 1''
       = (Inr (example_Stmt, None), cached_world\<lparr>locks := [RLock 1, RUnlock 1, RLock 1, RUnlock 1]\<rparr>)"
  using non_transactional_entry_shared [of example_pool 0 cached_world "''SELECT 1''" example_Stmt
          example_driver id "SqlTx (Some 3)" id "SqlDB 2"]
  by (simp add: ex_defs run_defs)

section \<open>Properties of the execution methods\<close>

lemma Store_Delete_removes [simp]: "stores (Store_Delete w r query) r query = None"
  by (simp add: Store_Delete_def)

lemma Store_Delete_compiled [simp]: "compiled (Store_Delete w r query) = compiled w"
  by (simp add: Store_Delete_def)

lemma evict_on_bad_conn_eq:
  "Stmts db = Some r \<Longrightarrow>
     evict_on_bad_conn w db query res =
       (Inr res, if errors_Is_opt (snd res) ErrBadConn then Store_Delete w r query else w)"
  by (simp add: evict_on_bad_conn_def Stmts_Delete_def)



lemma after_compile_store [simp]:
  "stores (log_lock ev (Store_Set w r query stmt)) r query = Some stmt"
  "compiled (log_lock ev (Store_Set w r query stmt)) = compiled w"
  by (simp_all add: log_lock_def Store_Set_def)

lemma Store_Delete_log_lock_Set [simp]:
  "stores (Store_Delete (log_lock ev (Store_Set w r query stmt)) r query) r query = None"
  by simp

section \<open>Eviction on a broken connection\<close>

text \<open>
  C3, as stated, fails for query-row. With \<^verbatim>\<open>SELECT 1\<close> cached and the driver reporting a
  broken connection, \<^verbatim>\<open>QueryRowContext\<close> hands back the row that carries
  \<^verbatim>\<open>driver.ErrBadConn\<close> and the entry is still in the store.
\<close>

theorem query_row_keeps_entry_on_bad_connection:
  "fst (PreparedStmtDB_QueryRowContext example_driver id cached_world example_pool ''SELECT 1'' [1])
     = Inr \<lparr>Row_err = Some ErrBadConn, Row_data = None\<rparr>
   \<and> stores (snd (PreparedStmtDB_QueryRowContext example_driver id cached_world example_pool ''SELECT 1'' [1]))
        0 ''SELECT 1'' = Some example_Stmt"
  by (simp add: PreparedStmtDB_QueryRowContext_def Stmt_QueryRowContext_def prepare_def Stmt_Error_def
      ex_defs run_defs)

text \<open>
  C3, amended. For every execute and query call on the prepared connection pool whose
  statement was prepared without error: the call returns what the execution of the
  statement returned, unchanged, and the memory is the one \<^verbatim>\<open>prepare\<close> left, except that the
  template's entry has been removed from the store when the execution error is in the
  broken-connection class (\<^verbatim>\<open>errors.Is(err, driver.ErrBadConn)\<close>); any other error, and
  success, leave the store alone. A query-row call returns the statement's row, in which
  the driver's error travels, and never evicts.
\<close>

theorem eviction_on_bad_connection:
  "Stmts db = Some r \<Longrightarrow>
   prepare drv others w db (ConnPool db) False query = (Inr (stmt, None), w1) \<Longrightarrow>
   Stmt_handle stmt = Some h \<Longrightarrow>
     PreparedStmtDB_ExecContext drv others w db query args
       = (Inr (StmtExec drv h args),
          if errors_Is_opt (snd (StmtExec drv h args)) ErrBadConn then Store_Delete w1 r query else w1)
     \<and> PreparedStmtDB_QueryContext drv others w db query args
       = (Inr (StmtQuery drv h args),
          if errors_Is_opt (snd (StmtQuery drv h args)) ErrBadConn then Store_Delete w1 r query else w1)
     \<and> stores (Store_Delete w1 r query) r query = None
     \<and> PreparedStmtDB_QueryRowContext drv others w db query args = (Inr (StmtQueryRow drv h args), w1)"
  by (simp add: PreparedStmtDB_ExecContext_def PreparedStmtDB_QueryContext_def
      PreparedStmtDB_QueryRowContext_def Stmt_ExecContext_def Stmt_QueryContext_def
      Stmt_QueryRowContext_def evict_on_bad_conn_eq)

theorem eviction_on_bad_connection_witness:
  "Stmts example_pool = Some 0
   \<and> prepare example_driver id cached_world example_pool (ConnPool example_pool) False ''SELECT 1''
       = (Inr (example_Stmt, None), cached_world\<lparr>locks := [RLock 1, RUnlock 1]\<rparr>)
   \<and> Stmt_handle example_Stmt = Some 5
   \<and> PreparedStmtDB_ExecContext example_driver id cached_world example_pool ''SELECT 1'' [1]
       = (Inr (None, Some ErrBadConn),
          example_world\<lparr>stores := (stores cached_world)(0 := Map.empty), locks := [RLock 1, RUnlock 1]\<rparr>)
   \<and> PreparedStmtDB_ExecContext example_driver id cached_world example_pool ''SELECT 1'' [2]
       = (Inr (None, Some (Errorf ''exec: driver: bad connection'' ErrBadConn)),
          example_world\<lparr>stores := (stores cached_world)(0 := Map.empty), locks := [RLock 1, RUnlock 1]\<rparr>)
   \<and> PreparedStmtDB_ExecContext example_driver id cached_world example_pool ''SELECT 1'' [3]
       = (Inr (None, Some (ErrorsNew ''UNIQUE constraint failed'')),
          cached_world\<lparr>locks := [RLock 1, RUnlock 1]\<rparr>)
   \<and> PreparedStmtDB_QueryContext example_driver id cached_world example_pool ''SELECT 1'' [1]
       = (Inr (None, Some ErrBadConn),
          example_world\<lparr>stores := (stores cached_world)(0 := Map.empty), locks := [RLock 1, RUnlock 1]\<rparr>)
   \<and> PreparedStmtDB_QueryRowContext example_driver id cached_world example_pool ''SELECT 1'' [1]
       = (Inr \<lparr>Row_err = Some ErrBadConn, Row_data = None\<rparr>, cached_world\<lparr>locks := [RLock 1, RUnlock 1]\<rparr>)"
  using eviction_on_bad_connection [of example_pool 0 example_driver id cached_world "''SELECT 1''"
          example_Stmt "cached_world\<lparr>locks := [RLock 1, RUnlock 1]\<rparr>" 5 "[1]"]
    eviction_on_bad_connection [of example_pool 0 example_driver id cached_world "''SELECT 1''"
          example_Stmt "cached_world\<lparr>locks := [RLock 1, RUnlock 1]\<rparr>" 5 "[2]"]
    eviction_on_bad_connection [of example_pool 0 example_driver id cached_world "''SELECT 1''"
          example_Stmt "cached_world\<lparr>locks := [RLock 1, RUnlock 1]\<rparr>" 5 "[3]"]
  by (simp add: ex_defs run_defs prepare_def Stmt_Error_def errors_Is_opt_def ErrBadConn_def)

section \<open>Which connection a statement is compiled and run on\<close>



section \<open>The plugin registry\<close>

text \<open>
  C7. Registering a plugin whose name the registry already holds fails with
  \<^verbatim>\<open>ErrRegistered\<close> and changes nothing: the registration in place is kept and the plugin is
  not initialised. Registering a new name whose \<^verbatim>\<open>Initialize\<close> fails returns that error and
  the registry is as before. Registering a new name whose \<^verbatim>\<open>Initialize\<close> succeeds adds that
  one entry to the handle's registry, leaves every other registry alone, initialises the
  plugin once, and a second registration of it then fails.
\<close>

theorem Use_registers_once:
  "(registries w (Plugins (DB_Config (handles w db))) (Name plugin) = Some registered \<longrightarrow>
      Use w db plugin = (Some ErrRegistered, w))
   \<and> (registries w (Plugins (DB_Config (handles w db))) (Name plugin) = None \<and>
       Initialize plugin db = Some err \<longrightarrow>
      Use w db plugin = (Some err, w\<lparr>initialized := initialized w @ [(Name plugin, db)]\<rparr>))
   \<and> (registries w (Plugins (DB_Config (handles w db))) (Name plugin) = None \<and>
       Initialize plugin db = None \<longrightarrow>
      fst (Use w db plugin) = None
      \<and> registries (snd (Use w db plugin)) (Plugins (DB_Config (handles w db)))
           = (registries w (Plugins (DB_Config (handles w db))))(Name plugin \<mapsto> plugin)
      \<and> (\<forall>a. a \<noteq> Plugins (DB_Config (handles w db)) \<longrightarrow>
            registries (snd (Use w db plugin)) a = registries w a)
      \<and> initialized (snd (Use w db plugin)) = initialized w @ [(Name plugin, db)]
      \<and> Use (snd (Use w db plugin)) db plugin = (Some ErrRegistered, snd (Use w db plugin)))"
  by (simp add: Use_def Let_def)

theorem Use_registers_once_witness:
  "registries example_world 3 ''dbresolver'' = None
   \<and> Use example_world 5 example_plugin
       = (None, example_world\<lparr>registries := (registries example_world)(3 := [''dbresolver'' \<mapsto> example_plugin]),
                               initialized := [(''dbresolver'', 5)]\<rparr>)
   \<and> Use (snd (Use example_world 5 example_plugin)) 5 example_plugin
       = (Some ErrRegistered, snd (Use example_world 5 example_plugin))
   \<and> Use example_world 5 failing_plugin
       = (Some (ErrorsNew ''no exporter''), example_world\<lparr>initialized := [(''tracing'', 5)]\<rparr>)"
  using Use_registers_once [of example_world 5 example_plugin example_plugin ErrRegistered]
    Use_registers_once [of "snd (Use example_world 5 example_plugin)" 5 example_plugin example_plugin ErrRegistered]
    Use_registers_once [of example_world 5 failing_plugin example_plugin "ErrorsNew ''no exporter''"]
  by (simp add: Use_def Let_def example_world_def example_DB_def example_Config_def example_plugin_def
      failing_plugin_def)

section \<open>Accumulated errors\<close>

text \<open>
  C8, as stated, fails. On a handle without a stored error, whose configuration translates
  errors and whose dialector is a translator, \<^verbatim>\<open>AddError\<close> does not store the error it is
  given but the translator's.
\<close>

theorem AddError_stores_translation:
  "Error (handles translating_world 5) = None
   \<and> fst (AddError translating_world 5 (Some (ErrorsNew ''UNIQUE constraint failed'')))
       = Some (ErrorsNew ''duplicated key not allowed'')
   \<and> Error (handles (snd (AddError translating_world 5 (Some (ErrorsNew ''UNIQUE constraint failed'')))) 5)
       = Some (ErrorsNew ''duplicated key not allowed'')
   \<and> ErrorsNew ''duplicated key not allowed'' \<noteq> ErrorsNew ''UNIQUE constraint failed''"
  by (simp add: AddError_def translated_def translating_world_def example_world_def example_DB_def
      example_Config_def Let_def)

text \<open>
  C8, amended. \<^verbatim>\<open>AddError\<close> accumulates: with nil it leaves the stored error unchanged and
  returns it; with an error it first replaces the error by the dialector's translation,
  when \<^verbatim>\<open>TranslateError\<close> is set and the dialector is a translator (otherwise the error
  stays as given); it stores that error when none is stored, and else stores a wrapping
  error whose text is the earlier text, \<^verbatim>\<open>"; "\<close> and the new text and which wraps the new
  error. In every case it returns the error the handle then stores, and no other handle
  changes.
\<close>

theorem AddError_accumulates:
  "AddError w db None = (Error (handles w db), w)
   \<and> (Error (handles w db) = None \<longrightarrow>
        fst (AddError w db (Some e)) = Some (translated (DB_Config (handles w db)) e))
   \<and> (Error (handles w db) = Some old \<longrightarrow>
        fst (AddError w db (Some e))
          = Some (Errorf (Error_text old @ ''; '' @ Error_text (translated (DB_Config (handles w db)) e))
                    (translated (DB_Config (handles w db)) e))
        \<and> errors_Is_opt (fst (AddError w db (Some e))) (translated (DB_Config (handles w db)) e))
   \<and> Error (handles (snd (AddError w db err)) db) = fst (AddError w db err)
   \<and> (\<forall>a. a \<noteq> db \<longrightarrow> handles (snd (AddError w db err)) a = handles w a)
   \<and> (\<not> TranslateError (DB_Config (handles w db)) \<longrightarrow> translated (DB_Config (handles w db)) e = e)
   \<and> (TranslateError (DB_Config (handles w db)) \<and>
       Config_Dialector (DB_Config (handles w db)) = Dialector (Some translate) \<longrightarrow>
        translated (DB_Config (handles w db)) e = translate e)
   \<and> (Config_Dialector (DB_Config (handles w db)) = NilDialector \<or>
       Config_Dialector (DB_Config (handles w db)) = Dialector None \<longrightarrow>
        translated (DB_Config (handles w db)) e = e)"
proof -
  have is_self: "errors_Is x x" for x by (cases x) simp_all
  show ?thesis
    by (cases err)
      (auto simp add: AddError_def Let_def fmt_Errorf_def translated_def errors_Is_opt_def is_self
        split: option.splits)
qed

theorem AddError_accumulates_witness:
  "AddError example_world 5 None = (None, example_world)
   \<and> Error (handles example_world 5) = None
   \<and> fst (AddError example_world 5 (Some (ErrorsNew ''record not found''))) = Some (ErrorsNew ''record not found'')
   \<and> Error (handles (snd (AddError example_world 5 (Some (ErrorsNew ''record not found'')))) 5)
       = Some (ErrorsNew ''record not found'')
   \<and> fst (AddError (snd (AddError example_world 5 (Some (ErrorsNew ''record not found'')))) 5
             (Some (ErrorsNew ''invalid transaction'')))
       = Some (Errorf ''record not found; invalid transaction'' (ErrorsNew ''invalid transaction''))
   \<and> fst (AddError translating_world 5 (Some (ErrorsNew ''UNIQUE constraint failed'')))
       = Some (ErrorsNew ''duplicated key not allowed'')"
  using AddError_accumulates [of example_world 5 "ErrorsNew ''record not found''"
          "ErrorsNew ''record not found''" "Some (ErrorsNew ''record not found'')" id]
    AddError_accumulates [of "snd (AddError example_world 5 (Some (ErrorsNew ''record not found'')))" 5
          "ErrorsNew ''invalid transaction''" "ErrorsNew ''record not found''" None id]
    AddError_accumulates [of translating_world 5 "ErrorsNew ''UNIQUE constraint failed''"
          "ErrorsNew ''record not found''" None
          "\<lambda>e. ErrorsNew ''duplicated key not allowed''"]
  by (simp add: AddError_def translated_def translating_world_def example_world_def example_DB_def
      example_Config_def Let_def fmt_Errorf_def)

end
